theory Spec2Isabelle
  imports Complex_Main "HOL-Library.Word" "HOL-Library.Signed_Division"
begin

unbundle bit_operations_syntax

section \<open>The WAVE writer of GoAudio (\<^verbatim>\<open>wave/writer.go\<close>)\<close>

text \<open>
  The embedding follows \<^verbatim>\<open>wave/writer.go\<close> function by function.

  \<^item> A Go \<^verbatim>\<open>byte\<close> is an \<open>8 word\<close>, a \<^verbatim>\<open>[]byte\<close> a list of them.
  \<^item> A Go \<^verbatim>\<open>int\<close> is a \<open>64 word\<close> (the size of \<^verbatim>\<open>int\<close> on 64-bit platforms):
    \<open>+\<close> and \<open>*\<close> wrap around, \<open>sint\<close> reads the value, \<^verbatim>\<open>/\<close> truncates towards zero.
  \<^item> The conversions \<^verbatim>\<open>uint16(i)\<close> and \<^verbatim>\<open>uint32(i)\<close> keep the low 16 and 32 bits (\<open>ucast\<close>).
  \<^item> A call of a nil function value panics; the panic is a value of the type \<open>panic\<close>.
  \<^item> An \<^verbatim>\<open>io.Writer\<close> is a state together with its \<^verbatim>\<open>Write\<close> method, a function from the
    state and the bytes to the new state, the count and the error (\<open>None\<close> for \<^verbatim>\<open>nil\<close>).

  \<^verbatim>\<open>WriteFrames\<close> and \<^verbatim>\<open>WriteWaveFile\<close> create a file and hand it to \<^verbatim>\<open>WriteWaveToWriter\<close>;
  the embedding starts at \<^verbatim>\<open>WriteWaveToWriter\<close>. \<^verbatim>\<open>floatToBytes\<close> is called by nothing in the
  file and is left out.
\<close>

subsection \<open>Bytes and integers\<close>

type_synonym byte = "8 word"
type_synonym goint = "64 word"

text \<open>Go's \<^verbatim>\<open>/\<close> on \<^verbatim>\<open>int\<close>: the quotient truncated towards zero, wrapped to 64 bits.
  (The only divisor in the file is the constant 8, so division by zero does not arise.)\<close>

definition go_div :: "goint \<Rightarrow> goint \<Rightarrow> goint" where
  "go_div a b = word_of_int (sint a sdiv sint b)"

text \<open>\<^verbatim>\<open>binary.LittleEndian.AppendUint16\<close> and \<^verbatim>\<open>AppendUint32\<close> of the standard library:
  \<^verbatim>\<open>append(b, byte(v), byte(v>>8))\<close> and
  \<^verbatim>\<open>append(b, byte(v), byte(v>>8), byte(v>>16), byte(v>>24))\<close>.\<close>

definition AppendUint16 :: "byte list \<Rightarrow> 16 word \<Rightarrow> byte list" where
  "AppendUint16 b v = b @ [ucast v, ucast (drop_bit 8 v)]"

definition AppendUint32 :: "byte list \<Rightarrow> 32 word \<Rightarrow> byte list" where
  "AppendUint32 b v = b @ [ucast v, ucast (drop_bit 8 v), ucast (drop_bit 16 v), ucast (drop_bit 24 v)]"

text \<open>Reading a byte sequence as a little-endian unsigned number: the reader's view of a
  size field, used to state what a field of the output holds.\<close>

fun le_nat :: "byte list \<Rightarrow> nat" where
  "le_nat [] = 0"
| "le_nat (b # bs) = unat b + 256 * le_nat bs"

subsection \<open>The constants of the file format\<close>

definition ChunkID :: "byte list" where
  "ChunkID = [0x52, 0x49, 0x46, 0x46]"

definition BigEndianChunkID :: "byte list" where
  "BigEndianChunkID = [0x52, 0x49, 0x46, 0x58]"

definition WaveID :: "byte list" where
  "WaveID = [0x57, 0x41, 0x56, 0x45]"

definition Format :: "byte list" where
  "Format = [0x66, 0x6d, 0x74, 0x20]"

definition Subchunk2ID :: "byte list" where
  "Subchunk2ID = [0x64, 0x61, 0x74, 0x61]"

subsection \<open>Packing integers\<close>

definition appendInt16 :: "byte list \<Rightarrow> goint \<Rightarrow> byte list" where
  "appendInt16 b i = (let in16 = (ucast i :: 16 word) in AppendUint16 b in16)"

definition appendInt32 :: "byte list \<Rightarrow> goint \<Rightarrow> byte list" where
  "appendInt32 b i = (let in32 = (ucast i :: 32 word) in AppendUint32 b in32)"

text \<open>\<^verbatim>\<open>appendIntFm\<close>: the map from a bit depth to the function that appends an integer of
  that width. It has the two keys 16 and 32; a lookup of any other key gives Go's nil.\<close>

definition appendIntFm :: "goint \<rightharpoonup> (byte list \<Rightarrow> goint \<Rightarrow> byte list)" where
  "appendIntFm = [16 \<mapsto> appendInt16, 32 \<mapsto> appendInt32]"

subsection \<open>The format descriptor and the format chunk\<close>

text \<open>The struct \<^verbatim>\<open>WaveFmt\<close> is declared in another file of the package; \<^verbatim>\<open>fmtToBytes\<close>
  reads these eight fields of it, \<^verbatim>\<open>Subchunk1ID\<close> as bytes and the others as \<^verbatim>\<open>int\<close>
  (they are passed to \<^verbatim>\<open>appendInt16\<close> and \<^verbatim>\<open>appendInt32\<close>).\<close>

record WaveFmt =
  Subchunk1ID :: "byte list"
  Subchunk1Size :: goint
  AudioFormat :: goint
  NumChannels :: goint
  SampleRate :: goint
  ByteRate :: goint
  BlockAlign :: goint
  BitsPerSample :: goint

text \<open>\<^verbatim>\<open>fmtToBytes\<close>. The source file holds the leftover of a merge here (an older body that
  computed unused locals, then the markers of the stash); both sides start from the empty
  buffer \<open>b\<close>, and the appends below are the body that is common to them.\<close>

definition fmtToBytes :: "WaveFmt \<Rightarrow> byte list" where
  "fmtToBytes wfmt =
    (let b = [];
         b = b @ Subchunk1ID wfmt;
         b = appendInt32 b (Subchunk1Size wfmt);
         b = appendInt16 b (AudioFormat wfmt);
         b = appendInt16 b (NumChannels wfmt);
         b = appendInt32 b (SampleRate wfmt);
         b = appendInt32 b (ByteRate wfmt);
         b = appendInt16 b (BlockAlign wfmt);
         b = appendInt16 b (BitsPerSample wfmt)
     in b)"

subsection \<open>Samples: 64-bit floating point numbers\<close>

text \<open>
  A \<^verbatim>\<open>Frame\<close> is a \<^verbatim>\<open>float64\<close> (\<^verbatim>\<open>rescaleFrame\<close> converts it with \<^verbatim>\<open>float64(s)\<close>). The model of
  IEEE 754 binary64 has what the writer uses: the finite numbers, the infinities and NaN,
  the multiplication, the conversion from \<^verbatim>\<open>int\<close> and the conversion to \<^verbatim>\<open>int\<close>.
  \<open>Fin m e\<close> is the number \<open>m * 2 ^ e\<close>; a number is a \<^verbatim>\<open>float64\<close> when it has such a pair
  with \<open>\<bar>m\<bar> < 2 ^ 53\<close> and \<open>-1074 \<le> e \<le> 971\<close>. The operations below are defined on all
  pairs, and what they return is a number of the format. The sign of a zero is not kept:
  neither the product's magnitude nor the conversion of a zero to \<^verbatim>\<open>int\<close> depends on it.
\<close>

datatype float64 = Fin int int | PosInf | NegInf | NaN

type_synonym Frame = float64

text \<open>The number of binary digits of a positive integer (0 for the others).\<close>

function nbits :: "int \<Rightarrow> nat" where
  "nbits a = (if a \<le> 0 then 0 else Suc (nbits (a div 2)))"
  by pat_completeness auto
termination
  by (relation "measure nat") auto

declare nbits.simps [simp del]

text \<open>Rounding the exact number \<open>m * 2 ^ e\<close> to binary64, to nearest, ties to even:
  the significand keeps 53 bits, the exponent of its last bit is at least \<open>-1074\<close>
  (subnormal numbers), and a rounded magnitude of \<open>2 ^ 1024\<close> or more is an infinity.
  \<open>k\<close> is the number of low bits that do not fit.\<close>

definition round64 :: "int \<Rightarrow> int \<Rightarrow> float64" where
  "round64 m e =
    (let a = \<bar>m\<bar>;
         k = max (int (nbits a) - 53) (- 1074 - e);
         d = 2 ^ nat k;
         q = a div d;
         r = a mod d;
         q' = (if d < 2 * r \<or> (2 * r = d \<and> odd q) then q + 1 else q);
         e' = (if k \<le> 0 then e else e + k)
     in if 1024 < int (nbits q') + e'
        then (if m < 0 then NegInf else PosInf)
        else Fin (sgn m * q') e')"

text \<open>The product of two floats: the exact product, rounded.\<close>

fun f64_mul :: "float64 \<Rightarrow> float64 \<Rightarrow> float64" where
  "f64_mul (Fin m1 e1) (Fin m2 e2) = round64 (m1 * m2) (e1 + e2)"
| "f64_mul NaN y = NaN"
| "f64_mul x NaN = NaN"
| "f64_mul (Fin m e) PosInf = (if m = 0 then NaN else if 0 < m then PosInf else NegInf)"
| "f64_mul (Fin m e) NegInf = (if m = 0 then NaN else if 0 < m then NegInf else PosInf)"
| "f64_mul PosInf (Fin m e) = (if m = 0 then NaN else if 0 < m then PosInf else NegInf)"
| "f64_mul NegInf (Fin m e) = (if m = 0 then NaN else if 0 < m then NegInf else PosInf)"
| "f64_mul PosInf PosInf = PosInf"
| "f64_mul PosInf NegInf = NegInf"
| "f64_mul NegInf PosInf = NegInf"
| "f64_mul NegInf NegInf = PosInf"

text \<open>\<^verbatim>\<open>float64(i)\<close> for an \<^verbatim>\<open>int\<close>: the nearest float.\<close>

definition f64_of_int :: "goint \<Rightarrow> float64" where
  "f64_of_int i = round64 (sint i) 0"

text \<open>\<^verbatim>\<open>int(f)\<close>: the fraction is discarded (truncation towards zero). When the truncated
  number is not an \<^verbatim>\<open>int\<close>, or \<open>f\<close> is an infinity or NaN, Go leaves the result to the
  implementation and does not panic; the model takes the result of amd64, the bit pattern
  \<^verbatim>\<open>0x8000000000000000\<close> (that is \<open>- 2 ^ 63\<close>).\<close>

definition trunc_int :: "int \<Rightarrow> int \<Rightarrow> int" where
  "trunc_int m e = (if 0 \<le> e then m * 2 ^ nat e else m sdiv 2 ^ nat (- e))"

fun f64_to_int :: "float64 \<Rightarrow> goint" where
  "f64_to_int (Fin m e) =
    (let t = trunc_int m e
     in if - (2 ^ 63) \<le> t \<and> t < 2 ^ 63 then word_of_int t else 0x8000000000000000)"
| "f64_to_int PosInf = 0x8000000000000000"
| "f64_to_int NegInf = 0x8000000000000000"
| "f64_to_int NaN = 0x8000000000000000"

subsection \<open>Rescaling and packing the samples\<close>

text \<open>The table \<^verbatim>\<open>maxValues\<close> that \<^verbatim>\<open>rescaleFrame\<close> reads is declared in another file of the
  package. The functions below take it as the parameter \<open>mv\<close>, a map from \<^verbatim>\<open>int\<close> to
  \<^verbatim>\<open>int\<close>; reading a key that a Go map does not hold gives the zero value.\<close>

definition map_index :: "(goint \<rightharpoonup> goint) \<Rightarrow> goint \<Rightarrow> goint" where
  "map_index mv k = (case mv k of None \<Rightarrow> 0 | Some v \<Rightarrow> v)"

definition rescaleFrame :: "(goint \<rightharpoonup> goint) \<Rightarrow> Frame \<Rightarrow> goint \<Rightarrow> goint" where
  "rescaleFrame mv s bits =
    (let rescaled = f64_mul s (f64_of_int (map_index mv bits))
     in f64_to_int rescaled)"

text \<open>Modelled from the spec: the table \<^verbatim>\<open>maxValues\<close>, which is not in \<^verbatim>\<open>writer.go\<close>. The spec
  (4.1) has the rescaler multiply by ``the maximum representable magnitude for the target
  width (e.g., for 16-bit, the maximum positive signed value)'', for the two supported
  widths 16 and 32.\<close>

definition maxValues :: "goint \<rightharpoonup> goint" where
  "maxValues = [16 \<mapsto> 32767, 32 \<mapsto> 2147483647]"

datatype panic = NilFuncCall

text \<open>\<^verbatim>\<open>samplesToRawData\<close>: the loop over the samples, with the buffer \<open>raw\<close> as the
  accumulator. Each round rescales the sample and then calls \<^verbatim>\<open>appendIntFm[props.BitsPerSample]\<close>;
  when the map has no such key the function value is nil and the call panics.\<close>

fun samplesToRawData_loop ::
  "(goint \<rightharpoonup> goint) \<Rightarrow> goint \<Rightarrow> byte list \<Rightarrow> Frame list \<Rightarrow> panic + byte list" where
  "samplesToRawData_loop mv bits raw [] = Inr raw"
| "samplesToRawData_loop mv bits raw (s # samples) =
    (let rescaled = rescaleFrame mv s bits
     in case appendIntFm bits of
          None \<Rightarrow> Inl NilFuncCall
        | Some f \<Rightarrow> samplesToRawData_loop mv bits (f raw rescaled) samples)"

definition samplesToRawData :: "(goint \<rightharpoonup> goint) \<Rightarrow> Frame list \<Rightarrow> WaveFmt \<Rightarrow> panic + byte list" where
  "samplesToRawData mv samples props = samplesToRawData_loop mv (BitsPerSample props) [] samples"

subsection \<open>The data chunk and the header\<close>

text \<open>The struct \<^verbatim>\<open>WaveData\<close> (declared in another file) with the four fields that
  \<^verbatim>\<open>framesToData\<close> sets; the field \<^verbatim>\<open>Subchunk2ID\<close> is \<open>Subchunk2ID_field\<close> here, since the
  package-level variable has the name already.\<close>

record WaveData =
  Subchunk2ID_field :: "byte list"
  Subchunk2Size :: goint
  RawData :: "byte list"
  Frames :: "Frame list"

definition framesToData ::
  "(goint \<rightharpoonup> goint) \<Rightarrow> Frame list \<Rightarrow> WaveFmt \<Rightarrow> panic + (WaveData \<times> byte list)" where
  "framesToData mv frames wfmt =
    (case samplesToRawData mv frames wfmt of
       Inl p \<Rightarrow> Inl p
     | Inr raw \<Rightarrow>
        (let subchunksize =
               go_div (of_nat (length frames) * NumChannels wfmt * BitsPerSample wfmt) 8;
             b = [];
             b = b @ Subchunk2ID;
             b = appendInt32 b subchunksize;
             b = b @ raw;
             wd = \<lparr>Subchunk2ID_field = Subchunk2ID, Subchunk2Size = subchunksize,
                   RawData = raw, Frames = frames\<rparr>
         in Inr (wd, b)))"

definition createHeader :: "WaveData \<Rightarrow> byte list" where
  "createHeader wd =
    (let chunksize = 36 + Subchunk2Size wd;
         bits = [];
         bits = bits @ ChunkID;
         bits = appendInt32 bits chunksize;
         bits = bits @ WaveID
     in bits)"

subsection \<open>Writing to the sink\<close>

text \<open>An \<^verbatim>\<open>io.Writer\<close>: the method \<^verbatim>\<open>Write(p) (n, err)\<close> on a state \<open>'w\<close>. \<^verbatim>\<open>WriteWaveToWriter\<close>
  drops \<open>n\<close> and looks at \<open>err\<close> only. Its result is the sink's last state together with
  \<open>Inl\<close> of the panic, or \<open>Inr\<close> of the returned error (\<open>None\<close> for \<^verbatim>\<open>nil\<close>).\<close>

type_synonym ('w, 'e) writer = "'w \<Rightarrow> byte list \<Rightarrow> 'w \<times> nat \<times> 'e option"

definition WriteWaveToWriter ::
  "(goint \<rightharpoonup> goint) \<Rightarrow> Frame list \<Rightarrow> WaveFmt \<Rightarrow> ('w, 'e) writer \<Rightarrow> 'w \<Rightarrow> 'w \<times> (panic + 'e option)" where
  "WriteWaveToWriter mv samples wfmt write w =
    (let wfb = fmtToBytes wfmt
     in case framesToData mv samples wfmt of
          Inl p \<Rightarrow> (w, Inl p)
        | Inr (data, databits) \<Rightarrow>
           (let hdr = createHeader data
            in case write w hdr of
                 (w1, n1, Some err) \<Rightarrow> (w1, Inr (Some err))
               | (w1, n1, None) \<Rightarrow>
                  (case write w1 wfb of
                     (w2, n2, Some err) \<Rightarrow> (w2, Inr (Some err))
                   | (w2, n2, None) \<Rightarrow>
                      (case write w2 databits of
                         (w3, n3, Some err) \<Rightarrow> (w3, Inr (Some err))
                       | (w3, n3, None) \<Rightarrow> (w3, Inr None)))))"

text \<open>Two sinks to run the writer on. \<open>buffer_write\<close> is an in-memory buffer that takes
  every write (as \<^verbatim>\<open>bytes.Buffer\<close> does). \<open>limited_write cap\<close> is a sink with room for
  \<open>cap\<close> bytes: a write that does not fit stores what fits and returns an error.\<close>

datatype io_error = ErrShortWrite

definition buffer_write :: "(byte list, io_error) writer" where
  "buffer_write buf p = (buf @ p, length p, None)"

definition limited_write :: "nat \<Rightarrow> (byte list, io_error) writer" where
  "limited_write cap buf p =
    (if length buf + length p \<le> cap then (buf @ p, length p, None)
     else (buf @ take (cap - length buf) p, cap - length buf, Some ErrShortWrite))"

text \<open>A sink that also keeps the list of the \<^verbatim>\<open>Write\<close> calls it received.\<close>

definition traced :: "('w, 'e) writer \<Rightarrow> ('w \<times> byte list list, 'e) writer" where
  "traced write st p =
    (case write (fst st) p of (w', n, err) \<Rightarrow> ((w', snd st @ [p]), n, err))"

subsection \<open>Reading the output\<close>

text \<open>\<open>le_bytes k v\<close> is the little-endian field of \<open>k\<close> bytes that holds the low \<open>8 * k\<close>
  bits of \<open>v\<close>: byte \<open>j\<close> is bits \<open>8 * j\<close> to \<open>8 * j + 7\<close>. The layouts below are stated
  with it; \<open>le_nat\<close> reads such a field back.\<close>

definition le_bytes :: "nat \<Rightarrow> goint \<Rightarrow> byte list" where
  "le_bytes k v = map (\<lambda>j. ucast (drop_bit (8 * j) v)) [0..<k]"

subsection \<open>Descriptors and samples to run the writer on\<close>

text \<open>PCM at 44100 Hz: 16-bit mono, 16-bit stereo and 32-bit mono; the mono descriptor with
  the depths 8 and 24, which \<^verbatim>\<open>appendIntFm\<close> does not have, and with \<open>2 ^ 32 + 1\<close>
  channels; and the sample 1.0.\<close>

definition mono16 :: WaveFmt where
  "mono16 = \<lparr>Subchunk1ID = Format, Subchunk1Size = 16, AudioFormat = 1, NumChannels = 1,
      SampleRate = 44100, ByteRate = 88200, BlockAlign = 2, BitsPerSample = 16\<rparr>"

definition stereo16 :: WaveFmt where
  "stereo16 = \<lparr>Subchunk1ID = Format, Subchunk1Size = 16, AudioFormat = 1, NumChannels = 2,
      SampleRate = 44100, ByteRate = 176400, BlockAlign = 4, BitsPerSample = 16\<rparr>"

definition mono32 :: WaveFmt where
  "mono32 = \<lparr>Subchunk1ID = Format, Subchunk1Size = 16, AudioFormat = 1, NumChannels = 1,
      SampleRate = 44100, ByteRate = 176400, BlockAlign = 4, BitsPerSample = 32\<rparr>"

definition depth8 :: WaveFmt where
  "depth8 = mono16\<lparr>BitsPerSample := 8\<rparr>"


definition one :: Frame where
  "one = Fin 1 0"


text \<open>The 48 bytes of the file for the two samples 1.0 and -1.0 in 16-bit mono.\<close>

definition mono16_two_file :: "byte list" where
  "mono16_two_file =
     [0x52, 0x49, 0x46, 0x46, 40, 0, 0, 0, 0x57, 0x41, 0x56, 0x45,
      0x66, 0x6d, 0x74, 0x20, 16, 0, 0, 0, 1, 0, 1, 0, 0x44, 0xAC, 0, 0, 0x88, 0x58, 1, 0, 2, 0, 16, 0,
      0x64, 0x61, 0x74, 0x61, 4, 0, 0, 0,
      0xFF, 0x7F, 0x01, 0x80]"

definition wide16 :: WaveFmt where
  "wide16 = mono16\<lparr>NumChannels := 4294967297\<rparr>"

text \<open>The three \<^verbatim>\<open>Write\<close> calls for the two samples 1.0 and -1.0 in 16-bit stereo.\<close>

definition stereo16_calls :: "byte list list" where
  "stereo16_calls =
     [[0x52, 0x49, 0x46, 0x46, 44, 0, 0, 0, 0x57, 0x41, 0x56, 0x45],
      [0x66, 0x6d, 0x74, 0x20, 16, 0, 0, 0, 1, 0, 2, 0, 0x44, 0xAC, 0, 0, 0x10, 0xB1, 2, 0,
       4, 0, 16, 0],
      [0x64, 0x61, 0x74, 0x61, 8, 0, 0, 0, 0xFF, 0x7F, 0x01, 0x80]]"

subsection \<open>The rescaler in the spec's words\<close>

text \<open>The spec (4.1) has the rescaler ``multiply the normalized sample by the maximum
  representable magnitude for the target width ..., truncate toward zero to an integer''.
  \<open>valof m e\<close> is the rational number \<open>m * 2 ^ e\<close> that \<open>Fin m e\<close> stands for, and
  \<open>trunc_toward_zero\<close> is the truncation of a rational number.\<close>

definition valof :: "int \<Rightarrow> int \<Rightarrow> rat" where
  "valof m e = of_int m * 2 powi e"

definition trunc_toward_zero :: "rat \<Rightarrow> int" where
  "trunc_toward_zero q = (if 0 \<le> q then \<lfloor>q\<rfloor> else \<lceil>q\<rceil>)"

section \<open>Properties\<close>

subsection \<open>Little-endian fields\<close>

lemma ucast_ucast16_byte: "(ucast (ucast (i::goint) :: 16 word) :: byte) = ucast i"
  by (rule bit_word_eqI) (auto simp: bit_simps)

lemma ucast_drop8_ucast16_byte:
  "(ucast (drop_bit 8 (ucast (i::goint) :: 16 word)) :: byte) = ucast (drop_bit 8 i)"
  by (rule bit_word_eqI) (auto simp: bit_simps)

lemma ucast_ucast32_byte: "(ucast (ucast (i::goint) :: 32 word) :: byte) = ucast i"
  by (rule bit_word_eqI) (auto simp: bit_simps)

lemma ucast_drop_ucast32_byte:
  "n \<le> 24 \<Longrightarrow> (ucast (drop_bit n (ucast (i::goint) :: 32 word)) :: byte) = ucast (drop_bit n i)"
  by (rule bit_word_eqI) (auto simp: bit_simps)

lemma appendInt16_bytes: "appendInt16 b i = b @ [ucast i, ucast (drop_bit 8 i)]"
  by (simp add: appendInt16_def AppendUint16_def ucast_ucast16_byte ucast_drop8_ucast16_byte)

lemma appendInt32_bytes:
  "appendInt32 b i = b @ [ucast i, ucast (drop_bit 8 i), ucast (drop_bit 16 i), ucast (drop_bit 24 i)]"
  by (simp add: appendInt32_def AppendUint32_def ucast_ucast32_byte ucast_drop_ucast32_byte)

lemma unat_drop: "unat (drop_bit n (i::goint)) = unat i div 2 ^ n"
  unfolding unat_drop_bit_eq by (simp add: drop_bit_eq_div)

lemma unat_byte_of: "unat (ucast (i::goint) :: byte) = unat i mod 256"
  by (simp add: unsigned_ucast_eq take_bit_eq_mod)

lemma le_step: "x mod 256 + 256 * ((x div 256) mod m) = x mod (256 * m)" for x :: nat
  by (simp add: mod_mult2_eq)

lemma le_bytes_0: "le_bytes 0 v = []"
  by (simp add: le_bytes_def)

lemma le_bytes_Suc: "le_bytes (Suc k) v = ucast v # le_bytes k (drop_bit 8 v)"
proof -
  have "[0..<Suc k] = 0 # [Suc 0..<Suc k]"
    by (rule upt_conv_Cons) simp
  also have "[Suc 0..<Suc k] = map Suc [0..<k]"
    by (simp only: map_Suc_upt)
  finally show ?thesis
    by (simp add: le_bytes_def comp_def drop_bit_drop_bit add.commute del: upt_Suc)
qed

lemma length_le_bytes: "length (le_bytes k v) = k"
  by (simp add: le_bytes_def)

lemma le_bytes_2: "le_bytes 2 v = [ucast v, ucast (drop_bit 8 v)]"
  by (simp add: eval_nat_numeral le_bytes_Suc le_bytes_0)

lemma le_bytes_4:
  "le_bytes 4 v = [ucast v, ucast (drop_bit 8 v), ucast (drop_bit 16 v), ucast (drop_bit 24 v)]"
  by (simp add: eval_nat_numeral le_bytes_Suc le_bytes_0 drop_bit_drop_bit)

text \<open>Read back, a field of \<open>k\<close> bytes holds the value modulo \<open>2 ^ (8 * k)\<close>.\<close>

lemma le_nat_le_bytes: "le_nat (le_bytes k v) = unat v mod 2 ^ (8 * k)"
proof (induction k arbitrary: v)
  case 0
  then show ?case by (simp add: le_bytes_0)
next
  case (Suc k)
  have "le_nat (le_bytes (Suc k) v) = unat v mod 256 + 256 * ((unat v div 256) mod 2 ^ (8 * k))"
    by (simp add: le_bytes_Suc Suc.IH unat_byte_of unat_drop [of 8, simplified])
  also have "\<dots> = unat v mod (256 * 2 ^ (8 * k))"
    by (rule le_step)
  also have "(256::nat) * 2 ^ (8 * k) = 2 ^ (8 * Suc k)"
    by (simp add: power_add)
  finally show ?case .
qed

lemma appendInt16_le: "appendInt16 b i = b @ le_bytes 2 i"
  by (simp add: appendInt16_bytes le_bytes_2)

lemma appendInt32_le: "appendInt32 b i = b @ le_bytes 4 i"
  by (simp add: appendInt32_bytes le_bytes_4)

subsection \<open>The format chunk\<close>

text \<open>Claim C8, as amended. For every format descriptor the format chunk is the descriptor's
  own \<^verbatim>\<open>Subchunk1ID\<close> bytes (whatever the caller put there; nothing makes them \<^verbatim>\<open>"fmt "\<close>),
  then the little-endian fields in this order and width: \<^verbatim>\<open>Subchunk1Size\<close> (4 bytes),
  \<^verbatim>\<open>AudioFormat\<close> (2), \<^verbatim>\<open>NumChannels\<close> (2), \<^verbatim>\<open>SampleRate\<close> (4), \<^verbatim>\<open>ByteRate\<close> (4), \<^verbatim>\<open>BlockAlign\<close> (2),
  \<^verbatim>\<open>BitsPerSample\<close> (2). Each field holds the low bits of the caller's value; nothing is
  recomputed.\<close>

theorem fmtToBytes_layout:
  "fmtToBytes wfmt =
     Subchunk1ID wfmt @ le_bytes 4 (Subchunk1Size wfmt) @ le_bytes 2 (AudioFormat wfmt)
       @ le_bytes 2 (NumChannels wfmt) @ le_bytes 4 (SampleRate wfmt) @ le_bytes 4 (ByteRate wfmt)
       @ le_bytes 2 (BlockAlign wfmt) @ le_bytes 2 (BitsPerSample wfmt)"
  by (simp add: fmtToBytes_def appendInt16_le appendInt32_le)

text \<open>Claim C8 as it is written fails for a descriptor whose \<^verbatim>\<open>Subchunk1ID\<close> is not \<^verbatim>\<open>"fmt "\<close>:
  with an empty \<^verbatim>\<open>Subchunk1ID\<close> the chunk starts with the size field.\<close>

theorem fmtToBytes_tag_counterexample:
  "take 4 (fmtToBytes \<lparr>Subchunk1ID = [], Subchunk1Size = 16, AudioFormat = 1, NumChannels = 1,
      SampleRate = 44100, ByteRate = 88200, BlockAlign = 2, BitsPerSample = 16\<rparr>) \<noteq> Format"
  by (simp add: fmtToBytes_def appendInt16_bytes appendInt32_bytes Format_def)

subsection \<open>The packed samples\<close>

lemma appendIntFm_16: "appendIntFm 16 = Some appendInt16"
  by (simp add: appendIntFm_def)

lemma appendIntFm_32: "appendIntFm 32 = Some appendInt32"
  by (simp add: appendIntFm_def)

lemma appendIntFm_other: "bits \<noteq> 16 \<Longrightarrow> bits \<noteq> 32 \<Longrightarrow> appendIntFm bits = None"
  by (simp add: appendIntFm_def)

lemma samplesToRawData_loop_le:
  assumes "appendIntFm bits = Some f" and "\<And>b i. f b i = b @ le_bytes k i"
  shows "samplesToRawData_loop mv bits raw samples
           = Inr (raw @ concat (map (\<lambda>s. le_bytes k (rescaleFrame mv s bits)) samples))"
  using assms by (induction samples arbitrary: raw) simp_all

lemma length_concat_le_bytes:
  "length (concat (map (\<lambda>s. le_bytes k (g s)) samples)) = length samples * k"
  by (induction samples) (simp_all add: length_le_bytes)

lemma samplesToRawData_16:
  "BitsPerSample props = 16 \<Longrightarrow>
   samplesToRawData mv samples props
     = Inr (concat (map (\<lambda>s. le_bytes 2 (rescaleFrame mv s 16)) samples))"
  using samplesToRawData_loop_le [OF appendIntFm_16 appendInt16_le, of mv "[]" samples]
  by (simp add: samplesToRawData_def)

lemma samplesToRawData_32:
  "BitsPerSample props = 32 \<Longrightarrow>
   samplesToRawData mv samples props
     = Inr (concat (map (\<lambda>s. le_bytes 4 (rescaleFrame mv s 32)) samples))"
  using samplesToRawData_loop_le [OF appendIntFm_32 appendInt32_le, of mv "[]" samples]
  by (simp add: samplesToRawData_def)

lemma length_RawData:
  assumes "BitsPerSample wfmt = 16 \<or> BitsPerSample wfmt = 32"
      and "samplesToRawData mv samples wfmt = Inr raw"
  shows "length raw = length samples * (unat (BitsPerSample wfmt) div 8)"
  using assms
  by (auto simp: samplesToRawData_16 samplesToRawData_32 length_concat_le_bytes)


lemma samplesToRawData_nil_func:
  assumes "samples \<noteq> []" and "BitsPerSample props \<noteq> 16" and "BitsPerSample props \<noteq> 32"
  shows "samplesToRawData mv samples props = Inl NilFuncCall"
  using assms by (cases samples) (simp_all add: samplesToRawData_def appendIntFm_other)

text \<open>Claim C4. For a bit depth \<open>b\<close> of 16 or 32 the packed buffer is the concatenation, in
  input order, of one little-endian field of \<open>b / 8\<close> bytes per sample, holding the rescaled
  sample; so its length is the number of samples times \<open>b / 8\<close>. (This holds for the empty
  sequence as well, and for any table \<open>mv\<close>.)\<close>

theorem samplesToRawData_packed:
  assumes "BitsPerSample props = 16 \<or> BitsPerSample props = 32"
  shows "samplesToRawData mv samples props
           = Inr (concat (map (\<lambda>s. le_bytes (unat (BitsPerSample props) div 8)
                                    (rescaleFrame mv s (BitsPerSample props))) samples))
         \<and> length (concat (map (\<lambda>s. le_bytes (unat (BitsPerSample props) div 8)
                                    (rescaleFrame mv s (BitsPerSample props))) samples))
             = length samples * (unat (BitsPerSample props) div 8)"
  using assms
  by (auto simp: samplesToRawData_16 samplesToRawData_32 length_concat_le_bytes)

text \<open>The samples 1.0 and -1.0 at 16 bits: \<^verbatim>\<open>ff 7f\<close> (32767) and \<^verbatim>\<open>01 80\<close> (-32767).\<close>

theorem samplesToRawData_packed_witness:
  "(BitsPerSample mono16 = 16 \<or> BitsPerSample mono16 = 32)
   \<and> samplesToRawData maxValues [one, Fin (- 1) 0] mono16 = Inr [0xFF, 0x7F, 0x01, 0x80]
   \<and> length [0xFF, 0x7F, 0x01, 0x80 :: byte] = length [one, Fin (- 1) 0] * (unat (BitsPerSample mono16) div 8)"
proof -
  have b: "BitsPerSample mono16 = 16 \<or> BitsPerSample mono16 = 32"
    by (simp add: mono16_def)
  have e: "concat (map (\<lambda>s. le_bytes (unat (BitsPerSample mono16) div 8)
                           (rescaleFrame maxValues s (BitsPerSample mono16))) [one, Fin (- 1) 0])
             = [0xFF, 0x7F, 0x01, 0x80]"
    by code_simp
  show ?thesis
    using samplesToRawData_packed [OF b, of maxValues "[one, Fin (- 1) 0]"] b
    unfolding e by simp
qed

subsection \<open>The data chunk, the header and the three writes\<close>

lemma length_consts [simp]:
  "length ChunkID = 4" "length WaveID = 4" "length Subchunk2ID = 4" "length Format = 4"
  by (simp_all add: ChunkID_def WaveID_def Subchunk2ID_def Format_def)

lemma createHeader_le: "createHeader wd = ChunkID @ le_bytes 4 (36 + Subchunk2Size wd) @ WaveID"
  by (simp add: createHeader_def appendInt32_le)

lemma length_fmtToBytes: "length (fmtToBytes wfmt) = length (Subchunk1ID wfmt) + 20"
  by (simp add: fmtToBytes_def appendInt16_bytes appendInt32_bytes)

lemma framesToData_Inr:
  assumes "samplesToRawData mv frames wfmt = Inr raw"
  shows "framesToData mv frames wfmt =
           Inr (\<lparr>Subchunk2ID_field = Subchunk2ID,
                  Subchunk2Size = go_div (of_nat (length frames) * NumChannels wfmt * BitsPerSample wfmt) 8,
                  RawData = raw, Frames = frames\<rparr>,
                Subchunk2ID
                  @ le_bytes 4 (go_div (of_nat (length frames) * NumChannels wfmt * BitsPerSample wfmt) 8)
                  @ raw)"
  using assms by (simp add: framesToData_def appendInt32_le Let_def)

lemma framesToData_Inl:
  assumes "samplesToRawData mv frames wfmt = Inl p"
  shows "framesToData mv frames wfmt = Inl p"
  using assms by (simp add: framesToData_def)

lemma framesToData_InrD:
  assumes "framesToData mv frames wfmt = Inr (wd, databits)"
  shows "Subchunk2Size wd = go_div (of_nat (length frames) * NumChannels wfmt * BitsPerSample wfmt) 8
         \<and> samplesToRawData mv frames wfmt = Inr (RawData wd)
         \<and> databits = Subchunk2ID @ le_bytes 4 (Subchunk2Size wd) @ RawData wd"
proof (cases "samplesToRawData mv frames wfmt")
  case (Inl p)
  with assms show ?thesis by (simp add: framesToData_Inl)
next
  case (Inr raw)
  from assms Inr show ?thesis
    by (auto simp: framesToData_Inr [OF Inr])
qed

lemma WriteWaveToWriter_buffer:
  assumes "framesToData mv samples wfmt = Inr (wd, databits)"
  shows "WriteWaveToWriter mv samples wfmt buffer_write buf
           = (buf @ createHeader wd @ fmtToBytes wfmt @ databits, Inr None)"
  using assms by (simp add: WriteWaveToWriter_def buffer_write_def)

lemma WriteWaveToWriter_panic:
  assumes "framesToData mv samples wfmt = Inl p"
  shows "WriteWaveToWriter mv samples wfmt wr w = (w, Inl p)"
  using assms by (simp add: WriteWaveToWriter_def)

text \<open>A run that returns \<^verbatim>\<open>nil\<close> has made the three writes.\<close>

lemma WriteWaveToWriter_traced_success:
  assumes "WriteWaveToWriter mv samples wfmt (traced wr) (w, lg) = ((w', calls), Inr None)"
  shows "\<exists>wd databits. framesToData mv samples wfmt = Inr (wd, databits)
           \<and> calls = lg @ [createHeader wd, fmtToBytes wfmt, databits]"
  using assms
  by (auto simp: WriteWaveToWriter_def traced_def Let_def split: sum.splits prod.splits option.splits)

lemma WriteWaveToWriter_buffer_out:
  assumes "WriteWaveToWriter mv samples wfmt buffer_write buf = (out, Inr None)"
  shows "\<exists>wd. framesToData mv samples wfmt
                 = Inr (wd, Subchunk2ID @ le_bytes 4 (Subchunk2Size wd) @ RawData wd)
              \<and> Subchunk2Size wd
                  = go_div (of_nat (length samples) * NumChannels wfmt * BitsPerSample wfmt) 8
              \<and> samplesToRawData mv samples wfmt = Inr (RawData wd)
              \<and> out = buf @ ChunkID @ le_bytes 4 (36 + Subchunk2Size wd) @ WaveID @ fmtToBytes wfmt
                       @ Subchunk2ID @ le_bytes 4 (Subchunk2Size wd) @ RawData wd"
proof (cases "framesToData mv samples wfmt")
  case (Inl p)
  with assms show ?thesis by (simp add: WriteWaveToWriter_panic)
next
  case (Inr r)
  obtain wd databits where r: "r = (wd, databits)" by (cases r)
  note f = Inr [unfolded r]
  from framesToData_InrD [OF f] assms show ?thesis
    by (auto simp: WriteWaveToWriter_buffer [OF f] createHeader_le f)
qed

text \<open>Claim C9. When the packing does not panic, the writer makes its \<^verbatim>\<open>Write\<close> calls in the
  order header, format chunk, data chunk, each on the sink as the call before left it. The
  list of calls received by the sink shows where it stops: after the first call that returns
  an error, with that error as the result and no later call; after the third call otherwise,
  with the third call's result.\<close>

theorem WriteWaveToWriter_write_order:
  assumes "framesToData mv samples wfmt = Inr (wd, databits)"
  shows "WriteWaveToWriter mv samples wfmt (traced write) (w, []) =
     (let hdr = createHeader wd;
          wfb = fmtToBytes wfmt;
          r1 = write w hdr;
          r2 = write (fst r1) wfb;
          r3 = write (fst r2) databits
      in if snd (snd r1) \<noteq> None then ((fst r1, [hdr]), Inr (snd (snd r1)))
         else if snd (snd r2) \<noteq> None then ((fst r2, [hdr, wfb]), Inr (snd (snd r2)))
         else ((fst r3, [hdr, wfb, databits]), Inr (snd (snd r3))))"
  using assms
  by (auto simp: WriteWaveToWriter_def traced_def Let_def split: prod.splits option.splits)

text \<open>A sink with room for 20 bytes takes the header, fails on the format chunk, and never
  sees the data chunk.\<close>

theorem WriteWaveToWriter_write_order_witness:
  "framesToData maxValues [one] mono16
     = Inr (\<lparr>Subchunk2ID_field = Subchunk2ID, Subchunk2Size = 2, RawData = [0xFF, 0x7F],
              Frames = [one]\<rparr>,
            [0x64, 0x61, 0x74, 0x61, 2, 0, 0, 0, 0xFF, 0x7F])
   \<and> WriteWaveToWriter maxValues [one] mono16 (traced (limited_write 20)) ([], [])
       = (([0x52, 0x49, 0x46, 0x46, 38, 0, 0, 0, 0x57, 0x41, 0x56, 0x45,
            0x66, 0x6d, 0x74, 0x20, 16, 0, 0, 0],
           [[0x52, 0x49, 0x46, 0x46, 38, 0, 0, 0, 0x57, 0x41, 0x56, 0x45],
            [0x66, 0x6d, 0x74, 0x20, 16, 0, 0, 0, 1, 0, 1, 0, 0x44, 0xAC, 0, 0, 0x88, 0x58, 1, 0,
             2, 0, 16, 0]]),
          Inr (Some ErrShortWrite))"
proof -
  have f: "framesToData maxValues [one] mono16
     = Inr (\<lparr>Subchunk2ID_field = Subchunk2ID, Subchunk2Size = 2, RawData = [0xFF, 0x7F],
              Frames = [one]\<rparr>,
            [0x64, 0x61, 0x74, 0x61, 2, 0, 0, 0, 0xFF, 0x7F])"
    by code_simp
  have e: "(let hdr = createHeader \<lparr>Subchunk2ID_field = Subchunk2ID, Subchunk2Size = 2,
                        RawData = [0xFF, 0x7F], Frames = [one]\<rparr>;
          wfb = fmtToBytes mono16;
          r1 = limited_write 20 [] hdr;
          r2 = limited_write 20 (fst r1) wfb;
          r3 = limited_write 20 (fst r2) [0x64, 0x61, 0x74, 0x61, 2, 0, 0, 0, 0xFF, 0x7F]
      in if snd (snd r1) \<noteq> None then ((fst r1, [hdr]), Inr (snd (snd r1)))
         else if snd (snd r2) \<noteq> None then ((fst r2, [hdr, wfb]), Inr (snd (snd r2)))
         else ((fst r3, [hdr, wfb, [0x64, 0x61, 0x74, 0x61, 2, 0, 0, 0, 0xFF, 0x7F]]),
               Inr (snd (snd r3))))
     = (([0x52, 0x49, 0x46, 0x46, 38, 0, 0, 0, 0x57, 0x41, 0x56, 0x45,
            0x66, 0x6d, 0x74, 0x20, 16, 0, 0, 0],
           [[0x52, 0x49, 0x46, 0x46, 38, 0, 0, 0, 0x57, 0x41, 0x56, 0x45],
            [0x66, 0x6d, 0x74, 0x20, 16, 0, 0, 0, 1, 0, 1, 0, 0x44, 0xAC, 0, 0, 0x88, 0x58, 1, 0,
             2, 0, 16, 0]]),
          Inr (Some ErrShortWrite) :: panic + io_error option)"
    by code_simp
  show ?thesis
    using WriteWaveToWriter_write_order [OF f, of "limited_write 20" "[]"] f unfolding e by simp
qed

subsection \<open>Bit depths that the packer does not have\<close>

text \<open>Claim C2, as amended. For every non-empty sample sequence and every descriptor whose
  \<^verbatim>\<open>BitsPerSample\<close> is neither 16 nor 32, the writer panics on the call of the nil function
  while it packs the first sample: no \<^verbatim>\<open>Write\<close> call has been made and the sink is as it
  was. (The failure is a panic, not a returned error.)\<close>

theorem unsupported_depth_panics:
  assumes "samples \<noteq> []" and "BitsPerSample wfmt \<noteq> 16" and "BitsPerSample wfmt \<noteq> 32"
  shows "WriteWaveToWriter mv samples wfmt write w = (w, Inl NilFuncCall)"
  by (rule WriteWaveToWriter_panic, rule framesToData_Inl, rule samplesToRawData_nil_func) fact+

text \<open>One sample at depth 8: the panic, with an empty buffer and an empty list of calls.\<close>

theorem unsupported_depth_panics_witness:
  "[one] \<noteq> [] \<and> BitsPerSample depth8 \<noteq> 16 \<and> BitsPerSample depth8 \<noteq> 32
   \<and> WriteWaveToWriter maxValues [one] depth8 (traced buffer_write) ([], [])
       = (([], []), Inl NilFuncCall)"
proof -
  have b: "BitsPerSample depth8 \<noteq> 16" "BitsPerSample depth8 \<noteq> 32"
    by (simp_all add: depth8_def mono16_def)
  have n: "[one] \<noteq> []"
    by simp
  show ?thesis
    using unsupported_depth_panics [OF n b, of maxValues "traced buffer_write" "([], [])"] b
    by simp
qed

text \<open>Claim C2 as it is written fails for the empty sample sequence: at depth 8 the writer
  returns \<^verbatim>\<open>nil\<close> after three \<^verbatim>\<open>Write\<close> calls that put 44 bytes into the sink.\<close>

theorem unsupported_depth_empty_counterexample:
  "WriteWaveToWriter maxValues [] depth8 (traced buffer_write) ([], [])
     = (([0x52, 0x49, 0x46, 0x46, 36, 0, 0, 0, 0x57, 0x41, 0x56, 0x45,
          0x66, 0x6d, 0x74, 0x20, 16, 0, 0, 0, 1, 0, 1, 0, 0x44, 0xAC, 0, 0, 0x88, 0x58, 1, 0,
          2, 0, 8, 0,
          0x64, 0x61, 0x74, 0x61, 0, 0, 0, 0],
         [[0x52, 0x49, 0x46, 0x46, 36, 0, 0, 0, 0x57, 0x41, 0x56, 0x45],
          [0x66, 0x6d, 0x74, 0x20, 16, 0, 0, 0, 1, 0, 1, 0, 0x44, 0xAC, 0, 0, 0x88, 0x58, 1, 0,
           2, 0, 8, 0],
          [0x64, 0x61, 0x74, 0x61, 0, 0, 0, 0]]),
        Inr None)"
  by code_simp



subsection \<open>The size fields\<close>

lemma unat_36_plus: "unat (36 + s :: goint) mod 2 ^ 32 = (36 + unat s mod 2 ^ 32) mod 2 ^ 32"
proof -
  have "unat (36 + s) = (36 + unat s) mod 2 ^ 64"
    by (simp add: unat_word_ariths)
  moreover have "(36 + unat s) mod 2 ^ 64 mod 2 ^ 32 = (36 + unat s) mod 2 ^ 32"
    by (rule mod_mod_cancel) (simp add: le_imp_power_dvd)
  ultimately show ?thesis
    by (simp add: mod_add_right_eq)
qed

lemma sint_word_of_int_small:
  "- (2 ^ 63) \<le> x \<Longrightarrow> x < 2 ^ 63 \<Longrightarrow> sint (word_of_int x :: goint) = x"
  by (simp add: signed_of_int signed_take_bit_int_eq_self)

lemma unat_word_of_int_small:
  "0 \<le> x \<Longrightarrow> x < 2 ^ 64 \<Longrightarrow> unat (word_of_int x :: goint) = nat x"
  by (simp add: unsigned_of_int take_bit_int_eq_self)

lemma go_div_8:
  assumes "0 \<le> x" and "x < 2 ^ 63"
  shows "go_div (word_of_int x) 8 = word_of_int (x div 8)"
  using assms by (simp add: go_div_def sint_word_of_int_small signed_divide_int_def sgn_if)

lemma size_product:
  "(of_nat n * c * b :: goint) = word_of_int (int n * sint c * sint b)"
  by simp

lemma subchunksize_no_wrap:
  assumes c: "0 \<le> sint c" and b: "b = 16 \<or> b = 32"
      and fit: "36 + int n * sint c * (sint b div 8) < 2 ^ 32"
  shows "unat (go_div (of_nat n * c * b) 8) mod 2 ^ 32 = n * nat (sint c) * (unat b div 8)"
    and "unat (36 + go_div (of_nat n * c * b) 8) mod 2 ^ 32 = 36 + n * nat (sint c) * (unat b div 8)"
proof -
  define k :: int where "k = sint b div 8"
  have k: "k = 2 \<or> k = 4" "sint b = 8 * k" "unat b div 8 = nat k"
    using b by (auto simp: k_def)
  define y where "y = int n * sint c * k"
  have y0: "0 \<le> y"
    using c k(1) by (auto simp: y_def)
  have y1: "36 + y < 2 ^ 32"
    using fit by (simp add: y_def k_def)
  have x: "int n * sint c * sint b = 8 * y"
    by (simp add: y_def k(2))
  have g: "go_div (of_nat n * c * b) 8 = word_of_int y"
    unfolding size_product x using go_div_8 [of "8 * y"] y0 y1 by simp
  then have "36 + go_div (of_nat n * c * b) 8 = (word_of_int (36 + y) :: goint)"
    by simp
  then have u36: "unat (36 + go_div (of_nat n * c * b) 8) = nat (36 + y)"
    using unat_word_of_int_small [of "36 + y"] y0 y1 by simp
  have u: "unat (go_div (of_nat n * c * b) 8) = nat y"
    unfolding g using unat_word_of_int_small [of y] y0 y1 by simp
  have lt: "nat (36 + y) < 2 ^ 32" "nat y < 2 ^ 32"
    using y0 y1 by (simp_all add: nat_less_iff)
  have ny: "nat y = n * nat (sint c) * nat k"
    using c k(1) by (auto simp: y_def nat_mult_distrib)
  have ny36: "nat (36 + y) = 36 + nat y"
    using y0 by (simp add: nat_add_distrib)
  show "unat (go_div (of_nat n * c * b) 8) mod 2 ^ 32 = n * nat (sint c) * (unat b div 8)"
    using u lt ny by (simp add: k(3))
  show "unat (36 + go_div (of_nat n * c * b) 8) mod 2 ^ 32 = 36 + n * nat (sint c) * (unat b div 8)"
    using u36 lt ny ny36 by (simp add: k(3))
qed

text \<open>Claim C5, as amended. In every file that the writer produces (here: collected by a
  buffer from a run that returns \<^verbatim>\<open>nil\<close>), the first four bytes are \<^verbatim>\<open>"RIFF"\<close>, bytes 8 to 11
  are \<^verbatim>\<open>"WAVE"\<close>, and the little-endian field between them holds 36 plus the value of the
  data size field \<^emph>\<open>modulo \<open>2 ^ 32\<close>\<close>; so it is 36 plus that value whenever the value is at
  most \<open>2 ^ 32 - 37\<close>. The data size field follows the format chunk and the tag
  \<^verbatim>\<open>"data"\<close>, at offset 40 for a 4-byte \<^verbatim>\<open>Subchunk1ID\<close>.\<close>

theorem riff_size_field:
  assumes "WriteWaveToWriter mv samples wfmt buffer_write [] = (out, Inr None)"
  shows "take 4 out = ChunkID \<and> take 4 (drop 8 out) = WaveID
         \<and> le_nat (take 4 (drop 4 out))
             = (36 + le_nat (take 4 (drop (36 + length (Subchunk1ID wfmt)) out))) mod 2 ^ 32
         \<and> (le_nat (take 4 (drop (36 + length (Subchunk1ID wfmt)) out)) \<le> 2 ^ 32 - 37 \<longrightarrow>
              le_nat (take 4 (drop 4 out))
                = 36 + le_nat (take 4 (drop (36 + length (Subchunk1ID wfmt)) out)))"
proof -
  from WriteWaveToWriter_buffer_out [OF assms] obtain wd :: WaveData where
    "out = [] @ ChunkID @ le_bytes 4 (36 + Subchunk2Size wd) @ WaveID @ fmtToBytes wfmt
                  @ Subchunk2ID @ le_bytes 4 (Subchunk2Size wd) @ RawData wd"
    by blast
  then have out: "out = ChunkID @ le_bytes 4 (36 + Subchunk2Size wd) @ WaveID @ fmtToBytes wfmt
                  @ Subchunk2ID @ le_bytes 4 (Subchunk2Size wd) @ RawData wd"
    by simp
  have a: "take 4 out = ChunkID"
    by (simp add: out)
  have b: "take 4 (drop 8 out) = WaveID"
    by (simp add: out length_le_bytes)
  have c: "take 4 (drop 4 out) = le_bytes 4 (36 + Subchunk2Size wd)"
    by (simp add: out length_le_bytes)
  have d: "take 4 (drop (36 + length (Subchunk1ID wfmt)) out) = le_bytes 4 (Subchunk2Size wd)"
    by (simp add: out length_le_bytes length_fmtToBytes)
  have m: "le_nat (take 4 (drop 4 out))
             = (36 + le_nat (take 4 (drop (36 + length (Subchunk1ID wfmt)) out))) mod 2 ^ 32"
    unfolding c d le_nat_le_bytes using unat_36_plus [of "Subchunk2Size wd"] by simp
  have "le_nat (take 4 (drop 4 out))
          = 36 + le_nat (take 4 (drop (36 + length (Subchunk1ID wfmt)) out))"
    if "le_nat (take 4 (drop (36 + length (Subchunk1ID wfmt)) out)) \<le> 2 ^ 32 - 37"
    unfolding m using that by simp
  with a b m show ?thesis
    by blast
qed

lemma mono16_two:
  "WriteWaveToWriter maxValues [one, Fin (- 1) 0] mono16 buffer_write [] = (mono16_two_file, Inr None)"
  by code_simp

text \<open>Two samples in 16-bit mono: the data size is 4 and the chunk size 40.\<close>

theorem riff_size_field_witness:
  "WriteWaveToWriter maxValues [one, Fin (- 1) 0] mono16 buffer_write [] = (mono16_two_file, Inr None)
   \<and> take 4 mono16_two_file = ChunkID \<and> take 4 (drop 8 mono16_two_file) = WaveID
   \<and> le_nat (take 4 (drop 4 mono16_two_file)) = 40
   \<and> le_nat (take 4 (drop 40 mono16_two_file)) = 4"
proof -
  have l: "36 + length (Subchunk1ID mono16) = 40"
    by (simp add: mono16_def)
  have d: "le_nat (take 4 (drop 40 mono16_two_file)) = 4"
    by (simp add: mono16_two_file_def)
  show ?thesis
    using riff_size_field [OF mono16_two] mono16_two d unfolding l by simp
qed

text \<open>Claim C5 as it is written fails when the sum does not fit the field. For
  1073741815 samples of 32-bit mono (a little over six hours at 44100 Hz) the data size
  field holds 4294967260 and the chunk size field holds 0.\<close>

theorem riff_size_wraps_counterexample:
  "le_nat (take 4 (drop 4 (fst (WriteWaveToWriter maxValues (replicate 1073741815 (Fin 0 0)) mono32
                                   buffer_write [])))) = 0
   \<and> le_nat (take 4 (drop 40 (fst (WriteWaveToWriter maxValues (replicate 1073741815 (Fin 0 0)) mono32
                                   buffer_write [])))) = 4294967260
   \<and> le_nat (take 4 (drop 4 (fst (WriteWaveToWriter maxValues (replicate 1073741815 (Fin 0 0)) mono32
                                   buffer_write []))))
       \<noteq> 36 + le_nat (take 4 (drop 40 (fst (WriteWaveToWriter maxValues
                                   (replicate 1073741815 (Fin 0 0)) mono32 buffer_write []))))"
proof -
  have b: "BitsPerSample mono32 = 32"
    by (simp add: mono32_def)
  have sz: "go_div (of_nat (length (replicate 1073741815 (Fin 0 0))) * NumChannels mono32 * BitsPerSample mono32) 8
              = 4294967260"
    by (simp add: mono32_def go_div_def signed_divide_int_def)
  define samples where "samples = replicate 1073741815 (Fin 0 0)"
  note f = framesToData_Inr [OF samplesToRawData_32 [OF b], of maxValues "replicate 1073741815 (Fin 0 0)",
      unfolded sz, folded samples_def]
  have l: "length (Subchunk1ID mono32) = 4"
    by (simp add: mono32_def)
  show ?thesis
    unfolding samples_def [symmetric] WriteWaveToWriter_buffer [OF f] createHeader_le
    by (simp add: length_le_bytes length_fmtToBytes l le_nat_le_bytes)
qed

text \<open>Claim C1 does not hold of the code. \<^verbatim>\<open>framesToData\<close> packs one field per element of
  \<^verbatim>\<open>frames\<close> and computes the size as \<^verbatim>\<open>len(frames) * NumChannels * BitsPerSample / 8\<close>: for
  the two samples 1.0 and -1.0 in 16-bit stereo the data size field holds 8 and 4 bytes of
  payload follow it.\<close>

theorem data_size_stereo:
  "le_nat (take 4 (drop 40 (fst (WriteWaveToWriter maxValues [one, Fin (- 1) 0] stereo16 buffer_write [])))) = 8
   \<and> length (drop 44 (fst (WriteWaveToWriter maxValues [one, Fin (- 1) 0] stereo16 buffer_write []))) = 4"
  by code_simp

text \<open>With one channel the field is right, as long as the size fits it.\<close>

lemma data_size_mono:
  assumes bits: "BitsPerSample wfmt = 16 \<or> BitsPerSample wfmt = 32"
      and mono: "NumChannels wfmt = 1"
      and fit: "36 + length samples * (unat (BitsPerSample wfmt) div 8) < 2 ^ 32"
      and ok: "WriteWaveToWriter mv samples wfmt buffer_write [] = (out, Inr None)"
  shows "le_nat (take 4 (drop (36 + length (Subchunk1ID wfmt)) out))
           = length (drop (40 + length (Subchunk1ID wfmt)) out)"
proof -
  from WriteWaveToWriter_buffer_out [OF ok] obtain wd :: WaveData where
      sz: "Subchunk2Size wd = go_div (of_nat (length samples) * NumChannels wfmt * BitsPerSample wfmt) 8"
    and raw: "samplesToRawData mv samples wfmt = Inr (RawData wd)"
    and "out = [] @ ChunkID @ le_bytes 4 (36 + Subchunk2Size wd) @ WaveID @ fmtToBytes wfmt
                  @ Subchunk2ID @ le_bytes 4 (Subchunk2Size wd) @ RawData wd"
    by blast
  then have out: "out = ChunkID @ le_bytes 4 (36 + Subchunk2Size wd) @ WaveID @ fmtToBytes wfmt
                  @ Subchunk2ID @ le_bytes 4 (Subchunk2Size wd) @ RawData wd"
    by simp
  have k: "sint (BitsPerSample wfmt) div 8 = int (unat (BitsPerSample wfmt) div 8)"
    using bits by auto
  have fit': "36 + int (length samples) * sint (NumChannels wfmt) * (sint (BitsPerSample wfmt) div 8) < 2 ^ 32"
    unfolding mono k using fit by (simp add: of_nat_less_iff [symmetric, where 'a = int] del: of_nat_less_iff)
  have "le_nat (take 4 (drop (36 + length (Subchunk1ID wfmt)) out))
          = unat (Subchunk2Size wd) mod 2 ^ 32"
    by (simp add: out length_le_bytes length_fmtToBytes le_nat_le_bytes)
  also have "\<dots> = length samples * (unat (BitsPerSample wfmt) div 8)"
    unfolding sz using subchunksize_no_wrap(1) [OF _ bits fit'] by (simp add: mono)
  also have "\<dots> = length (drop (40 + length (Subchunk1ID wfmt)) out)"
    using length_RawData [OF bits raw] by (simp add: out length_le_bytes length_fmtToBytes)
  finally show ?thesis .
qed

text \<open>Claim C3, as amended. For a bit depth of 16 or 32 and a 4-byte \<^verbatim>\<open>Subchunk1ID\<close>, a run
  that returns \<^verbatim>\<open>nil\<close> hands the sink \<open>44 + N * (bitsPerSample / 8)\<close> bytes in all, whatever
  \<^verbatim>\<open>NumChannels\<close> is. When there is at least one sample, more than one channel, and
  \<open>36 + N * NumChannels * (bitsPerSample / 8)\<close> is below \<open>2 ^ 32\<close> (so that the chunk size
  field holds it), that total differs from 8 plus the value of the chunk size field.\<close>

theorem total_output_length:
  assumes bits: "BitsPerSample wfmt = 16 \<or> BitsPerSample wfmt = 32"
      and tag: "length (Subchunk1ID wfmt) = 4"
      and ok: "WriteWaveToWriter mv samples wfmt (traced write) (w, []) = ((w', calls), Inr None)"
  shows "length (concat calls) = 44 + length samples * (unat (BitsPerSample wfmt) div 8)
         \<and> (samples \<noteq> [] \<longrightarrow> 1 < sint (NumChannels wfmt) \<longrightarrow>
              36 + int (length samples) * sint (NumChannels wfmt) * (sint (BitsPerSample wfmt) div 8) < 2 ^ 32 \<longrightarrow>
              length (concat calls) \<noteq> 8 + le_nat (take 4 (drop 4 (concat calls))))"
proof -
  from WriteWaveToWriter_traced_success [OF ok] obtain wd :: WaveData and databits
    where f: "framesToData mv samples wfmt = Inr (wd, databits)"
      and calls: "calls = [createHeader wd, fmtToBytes wfmt, databits]"
    by auto
  note d = framesToData_InrD [OF f]
  have raw: "length (RawData wd) = length samples * (unat (BitsPerSample wfmt) div 8)"
    using length_RawData [OF bits] d by blast
  have out: "concat calls = ChunkID @ le_bytes 4 (36 + Subchunk2Size wd) @ WaveID @ fmtToBytes wfmt
                  @ Subchunk2ID @ le_bytes 4 (Subchunk2Size wd) @ RawData wd"
    using d by (simp add: calls createHeader_le)
  have total: "length (concat calls) = 44 + length samples * (unat (BitsPerSample wfmt) div 8)"
    by (simp add: out length_le_bytes length_fmtToBytes tag raw)
  have riff: "le_nat (take 4 (drop 4 (concat calls))) = unat (36 + Subchunk2Size wd) mod 2 ^ 32"
    by (simp add: out length_le_bytes le_nat_le_bytes)
  have differs: "length (concat calls) \<noteq> 8 + le_nat (take 4 (drop 4 (concat calls)))"
    if ne: "samples \<noteq> []" and c: "1 < sint (NumChannels wfmt)"
      and fit: "36 + int (length samples) * sint (NumChannels wfmt) * (sint (BitsPerSample wfmt) div 8) < 2 ^ 32"
  proof -
    have c0: "0 \<le> sint (NumChannels wfmt)"
      using c by simp
    have v: "le_nat (take 4 (drop 4 (concat calls)))
               = 36 + length samples * nat (sint (NumChannels wfmt)) * (unat (BitsPerSample wfmt) div 8)"
      unfolding riff using subchunksize_no_wrap(2) [OF c0 bits fit] d by simp
    have k: "0 < unat (BitsPerSample wfmt) div 8"
      using bits by auto
    have n: "0 < length samples"
      using ne by simp
    have "1 < nat (sint (NumChannels wfmt))"
      using c by simp
    then have "length samples * 1 < length samples * nat (sint (NumChannels wfmt))"
      using n by simp
    then have "length samples * (unat (BitsPerSample wfmt) div 8)
                 < length samples * nat (sint (NumChannels wfmt)) * (unat (BitsPerSample wfmt) div 8)"
      using k by simp
    then show ?thesis
      unfolding v total by linarith
  qed
  show ?thesis
    using total differs by blast
qed

text \<open>Two samples in 16-bit stereo: 48 bytes, and a chunk size of 44.\<close>

theorem total_output_length_witness:
  "(BitsPerSample stereo16 = 16 \<or> BitsPerSample stereo16 = 32)
   \<and> length (Subchunk1ID stereo16) = 4
   \<and> WriteWaveToWriter maxValues [one, Fin (- 1) 0] stereo16 (traced buffer_write) ([], [])
       = ((concat stereo16_calls, stereo16_calls), Inr None)
   \<and> [one, Fin (- 1) 0] \<noteq> []
   \<and> 1 < sint (NumChannels stereo16)
   \<and> 36 + int (length [one, Fin (- 1) 0]) * sint (NumChannels stereo16)
            * (sint (BitsPerSample stereo16) div 8) < 2 ^ 32
   \<and> length (concat stereo16_calls) = 48
   \<and> le_nat (take 4 (drop 4 (concat stereo16_calls))) = 44"
proof -
  have b: "BitsPerSample stereo16 = 16 \<or> BitsPerSample stereo16 = 32"
    and t: "length (Subchunk1ID stereo16) = 4"
    and c: "1 < sint (NumChannels stereo16)"
    and fit: "36 + int (length [one, Fin (- 1) 0]) * sint (NumChannels stereo16)
            * (sint (BitsPerSample stereo16) div 8) < 2 ^ 32"
    by (simp_all add: stereo16_def)
  have ok: "WriteWaveToWriter maxValues [one, Fin (- 1) 0] stereo16 (traced buffer_write) ([], [])
       = ((concat stereo16_calls, stereo16_calls), Inr None)"
    by code_simp
  have r: "le_nat (take 4 (drop 4 (concat stereo16_calls))) = 44"
    by (simp add: stereo16_calls_def)
  have l: "length (concat stereo16_calls) = 48"
    by (simp add: stereo16_calls_def)
  show ?thesis
    using total_output_length [OF b t ok] b t ok c fit r l by simp
qed

text \<open>Claim C3 as it is written fails in its second half: with no samples the total is 44
  and the chunk size 36, whatever the number of channels; and with \<open>2 ^ 32 + 1\<close> channels
  the size wraps around to the length of the payload.\<close>

theorem total_output_length_counterexample:
  "1 < sint (NumChannels stereo16)
   \<and> length (fst (WriteWaveToWriter maxValues [] stereo16 buffer_write []))
       = 8 + le_nat (take 4 (drop 4 (fst (WriteWaveToWriter maxValues [] stereo16 buffer_write []))))
   \<and> 1 < sint (NumChannels wide16)
   \<and> length (fst (WriteWaveToWriter maxValues [one] wide16 buffer_write []))
       = 8 + le_nat (take 4 (drop 4 (fst (WriteWaveToWriter maxValues [one] wide16 buffer_write []))))"
  by code_simp

subsection \<open>One sample of 1.0 in 16-bit mono\<close>




subsection \<open>The rescaler\<close>









text \<open>The product is rounded before it is truncated. For the sample
  \<open>(1 + 2 ^ 15 + 2 ^ 30 + 2 ^ 45) / 2 ^ 53\<close> (about 0.0039) at 16 bits the exact product is
  \<open>128 - 1 / 2 ^ 53\<close>, which truncates to 127; the nearest float is 128, and that is the
  rescaled integer.\<close>

lemma rescaleFrame_rounds_before_truncating:
  "sint (rescaleFrame maxValues (Fin 35185445863425 (- 53)) 16) = 128
   \<and> trunc_toward_zero (valof 35185445863425 (- 53) * 32767) = 127"
proof -
  have "rescaleFrame maxValues (Fin 35185445863425 (- 53)) 16 = 128"
    by code_simp
  moreover have "trunc_toward_zero (valof 35185445863425 (- 53) * 32767) = 127"
    by code_simp
  ultimately show ?thesis
    by simp
qed

end
